theory Spec2Isabelle
  imports Complex_Main
begin

section \<open>Errors and their classification (playAiErrorHandling.js)\<close>

text \<open>
  The nine members of the \<^verbatim>\<open>ErrorTypes\<close> object.
\<close>

datatype ErrorTypes =
    AUTHENTICATION | NETWORK | SERVER | RATE_LIMIT | VALIDATION
  | PERMISSION | RESOURCE_NOT_FOUND | TIMEOUT | UNKNOWN

text \<open>
  A JavaScript error object, reduced to the three properties the module reads. Each may be
  absent (\<open>None\<close> is \<^verbatim>\<open>undefined\<close>). A numeric status is an integer here.
\<close>

record jserror =
  message :: "string option"
  status :: "int option"
  statusCode :: "int option"

text \<open>
  Anything can be thrown in JavaScript. The module tests thrown values for truthiness in two
  places (\<^verbatim>\<open>!error\<close>, \<^verbatim>\<open>lastError || ...\<close>), so a thrown value is either falsy
  (\<^verbatim>\<open>null\<close>, \<^verbatim>\<open>undefined\<close>, as a bare \<^verbatim>\<open>Promise.reject()\<close> gives) or an object.
\<close>

datatype thrown = Falsy | Obj jserror

text \<open>\<^verbatim>\<open>new Error(msg)\<close>: an error object with a message and no status.\<close>

definition newError :: "string \<Rightarrow> thrown" where
  "newError msg = Obj \<lparr>message = Some msg, status = None, statusCode = None\<rparr>"

text \<open>\<^verbatim>\<open>String.prototype.includes\<close>: a contiguous, case-sensitive occurrence.\<close>

fun startsWith :: "string \<Rightarrow> string \<Rightarrow> bool" where
  "startsWith s [] = True"
| "startsWith [] (p # ps) = False"
| "startsWith (c # cs) (p # ps) = (c = p \<and> startsWith cs ps)"

fun str_includes :: "string \<Rightarrow> string \<Rightarrow> bool" where
  "str_includes [] sub = (sub = [])"
| "str_includes (c # cs) sub = (startsWith (c # cs) sub \<or> str_includes cs sub)"

text \<open>
  \<^verbatim>\<open>error.message || ''\<close> and \<^verbatim>\<open>error.status || error.statusCode || 0\<close>:
  \<open>orNum x d\<close> is \<^verbatim>\<open>x || d\<close> on numbers, where absent and zero are falsy.
\<close>

definition messageOf :: "jserror \<Rightarrow> string" where
  "messageOf e = (case message e of None \<Rightarrow> [] | Some m \<Rightarrow> m)"

definition orNum :: "int option \<Rightarrow> int \<Rightarrow> int" where
  "orNum x d = (case x of None \<Rightarrow> d | Some n \<Rightarrow> if n = 0 then d else n)"

definition statusOf :: "jserror \<Rightarrow> int" where
  "statusOf e = orNum (status e) (orNum (statusCode e) 0)"

text \<open>
  \<^verbatim>\<open>classifyError\<close>. The first argument is the value of \<^verbatim>\<open>navigator.onLine\<close> at the
  moment of the call, which the network rule reads. The rules are tried in the order of the
  source; the first that matches decides.
\<close>

definition classifyError :: "bool \<Rightarrow> thrown \<Rightarrow> ErrorTypes" where
  "classifyError onLine error =
     (case error of
        Falsy \<Rightarrow> UNKNOWN
      | Obj e \<Rightarrow>
          (let message = messageOf e; status = statusOf e in
           if str_includes message ''network'' \<or> str_includes message ''connection'' \<or> \<not> onLine
             then NETWORK
           else if status = 401 \<or> str_includes message ''unauthorized''
                   \<or> str_includes message ''authentication''
                   \<or> str_includes message ''invalid credentials''
                   \<or> str_includes message ''api key''
             then AUTHENTICATION
           else if status = 429 \<or> str_includes message ''rate limit''
                   \<or> str_includes message ''too many requests''
             then RATE_LIMIT
           else if status \<ge> 500 \<or> str_includes message ''server error''
                   \<or> str_includes message ''internal error''
             then SERVER
           else if status = 400 \<or> str_includes message ''validation''
                   \<or> str_includes message ''invalid''
             then VALIDATION
           else if status = 403 \<or> str_includes message ''permission''
                   \<or> str_includes message ''forbidden''
             then PERMISSION
           else if status = 404 \<or> str_includes message ''not found''
             then RESOURCE_NOT_FOUND
           else if str_includes message ''timeout'' \<or> str_includes message ''timed out''
             then TIMEOUT
           else UNKNOWN))"

section \<open>Operations and the world they run in\<close>

text \<open>
  An operation (\<^verbatim>\<open>fn\<close>, \<^verbatim>\<open>apiFn\<close>) is an effectful call that either resolves with a
  value or throws. It is a function on the state of the world \<open>'w\<close> it acts on: every
  invocation is one application. The world also holds \<^verbatim>\<open>navigator.onLine\<close>, read through
  an accessor. The executors below run one call from start to end; nothing else changes the
  world in between.
\<close>

type_synonym ('w, 'a) operation = "'w \<Rightarrow> (thrown + 'a) \<times> 'w"

section \<open>Retry with exponential backoff\<close>

text \<open>
  The options bag of \<^verbatim>\<open>retryWithBackoff\<close>. \<open>maxRetries\<close> is an integer (of any sign).
  \<open>shouldRetry\<close> sees the world because the default predicate classifies the error, and
  classification reads \<^verbatim>\<open>navigator.onLine\<close>.
\<close>

record 'w retryOptions =
  maxRetries :: int
  baseDelay :: real
  maxDelay :: real
  shouldRetry :: "'w \<Rightarrow> thrown \<Rightarrow> bool"

definition defaultShouldRetry :: "('w \<Rightarrow> bool) \<Rightarrow> 'w \<Rightarrow> thrown \<Rightarrow> bool" where
  "defaultShouldRetry onLine w error =
     (classifyError (onLine w) error \<in> set [NETWORK, SERVER, TIMEOUT, RATE_LIMIT])"

text \<open>The values the destructuring pattern supplies for options left out.\<close>

definition defaultRetryOptions :: "('w \<Rightarrow> bool) \<Rightarrow> 'w retryOptions" where
  "defaultRetryOptions onLine =
     \<lparr>maxRetries = 3, baseDelay = 1000, maxDelay = 10000,
      shouldRetry = defaultShouldRetry onLine\<rparr>"

text \<open>
  The delay before retry number \<open>retries\<close>; \<open>r\<close> is the value of \<^verbatim>\<open>Math.random()\<close>,
  in \<open>[0, 1)\<close>. Delays are real numbers: the rounding of doubles is not modelled.
\<close>

definition backoffDelay :: "real \<Rightarrow> real \<Rightarrow> nat \<Rightarrow> real \<Rightarrow> real" where
  "backoffDelay maxD baseD retries r = min maxD (baseD * 2 ^ retries * (0.8 + r * 0.4))"

text \<open>
  The \<^verbatim>\<open>while (true)\<close> loop, started with \<open>retries = 0\<close>. \<open>rnd k\<close> is the random draw
  made before retry \<open>k\<close>. The result is the outcome, the world, and the delays slept, in
  order.
\<close>

function retryLoop ::
  "('w, 'a) operation \<Rightarrow> 'w retryOptions \<Rightarrow> (nat \<Rightarrow> real) \<Rightarrow> nat \<Rightarrow> 'w
     \<Rightarrow> (thrown + 'a) \<times> 'w \<times> real list" where
  "retryLoop fn opts rnd retries w =
     (case fn w of
        (Inr v, w') \<Rightarrow> (Inr v, w', [])
      | (Inl error, w') \<Rightarrow>
          if int retries \<ge> maxRetries opts \<or> \<not> shouldRetry opts w' error
            then (Inl error, w', [])
          else
            (let delay = backoffDelay (maxDelay opts) (baseDelay opts) retries (rnd retries)
             in case retryLoop fn opts rnd (Suc retries) w' of
                  (res, w'', delays) \<Rightarrow> (res, w'', delay # delays)))"
  by pat_completeness auto
termination
  by (relation "measure (\<lambda>(fn, opts, rnd, retries, w). nat (maxRetries opts - int retries))")
     auto

declare retryLoop.simps [simp del]

definition retryWithBackoff ::
  "('w, 'a) operation \<Rightarrow> 'w retryOptions \<Rightarrow> (nat \<Rightarrow> real) \<Rightarrow> 'w
     \<Rightarrow> (thrown + 'a) \<times> 'w \<times> real list" where
  "retryWithBackoff fn opts rnd w = retryLoop fn opts rnd 0 w"

section \<open>Fallback chain\<close>

text \<open>\<^verbatim>\<open>lastError || new Error(...)\<close>: the left operand unless it is falsy.\<close>

definition orError :: "thrown \<Rightarrow> thrown \<Rightarrow> thrown" where
  "orError x d = (case x of Falsy \<Rightarrow> d | Obj e \<Rightarrow> Obj e)"

text \<open>
  The \<^verbatim>\<open>for\<close> loop of \<^verbatim>\<open>fallbackChain\<close>, with \<open>lastError\<close> as it stands and the
  functions still to try. The third component of the result lists the errors passed to
  \<^verbatim>\<open>console.warn\<close>.
\<close>

fun fallbackLoop ::
  "thrown \<Rightarrow> ('w, 'a) operation list \<Rightarrow> 'w \<Rightarrow> (thrown + 'a) \<times> 'w \<times> thrown list" where
  "fallbackLoop lastError [] w =
     (Inl (orError lastError (newError ''All fallback options failed'')), w, [])"
| "fallbackLoop lastError (fn # fns) w =
     (case fn w of
        (Inr v, w') \<Rightarrow> (Inr v, w', [])
      | (Inl error, w') \<Rightarrow>
          (case fallbackLoop error fns w' of
             (res, w'', warned) \<Rightarrow> (res, w'', error # warned)))"

text \<open>
  \<^verbatim>\<open>fallbackChain\<close>. A missing array (\<^verbatim>\<open>!fns\<close>) takes the same branch as the empty
  one. \<open>lastError\<close> starts as \<^verbatim>\<open>null\<close>.
\<close>

definition fallbackChain ::
  "('w, 'a) operation list \<Rightarrow> 'w \<Rightarrow> (thrown + 'a) \<times> 'w \<times> thrown list" where
  "fallbackChain fns w =
     (if length fns = 0 then (Inl (newError ''No fallback functions provided''), w, [])
      else fallbackLoop Falsy fns w)"

section \<open>Error handlers and the resilient call wrapper\<close>

text \<open>
  The handlers bag of \<^verbatim>\<open>handleApiError\<close>: each field says whether that callback was
  given. Callbacks only observe; the model records which one was called.
\<close>

record errorHandlers =
  onAuthError :: bool
  onNetworkError :: bool
  onRateLimitError :: bool
  onServerError :: bool
  onValidationError :: bool
  onPermissionError :: bool
  onNotFoundError :: bool
  onTimeoutError :: bool
  onUnknownError :: bool

definition noHandlers :: errorHandlers where
  "noHandlers =
     \<lparr>onAuthError = False, onNetworkError = False, onRateLimitError = False,
      onServerError = False, onValidationError = False, onPermissionError = False,
      onNotFoundError = False, onTimeoutError = False, onUnknownError = False\<rparr>"

text \<open>
  \<^verbatim>\<open>handleApiError\<close>: the kind whose handler ran with the error, if that handler was
  given.
\<close>

definition handleApiError :: "bool \<Rightarrow> thrown \<Rightarrow> errorHandlers \<Rightarrow> ErrorTypes option" where
  "handleApiError onLine error h =
     (let errorType = classifyError onLine error in
      case errorType of
        AUTHENTICATION \<Rightarrow> if onAuthError h then Some errorType else None
      | NETWORK \<Rightarrow> if onNetworkError h then Some errorType else None
      | RATE_LIMIT \<Rightarrow> if onRateLimitError h then Some errorType else None
      | SERVER \<Rightarrow> if onServerError h then Some errorType else None
      | VALIDATION \<Rightarrow> if onValidationError h then Some errorType else None
      | PERMISSION \<Rightarrow> if onPermissionError h then Some errorType else None
      | RESOURCE_NOT_FOUND \<Rightarrow> if onNotFoundError h then Some errorType else None
      | TIMEOUT \<Rightarrow> if onTimeoutError h then Some errorType else None
      | UNKNOWN \<Rightarrow> if onUnknownError h then Some errorType else None)"

text \<open>
  The options bag of \<^verbatim>\<open>createResilientApiCall\<close>. The destructuring pattern names
  exactly these four properties; any other property of the object passed is never read.
  \<open>extra\<close> stands for such a property (whatever else a caller puts in the bag).
\<close>

record ('w, 'a, 'x) resilientOptions =
  useRetry :: bool
  retryOptions :: "'w retryOptions"
  fallbacks :: "('w, 'a) operation list"
  errorHandlers :: errorHandlers
  extra :: "'x"

text \<open>
  The wrapped function returned by \<^verbatim>\<open>createResilientApiCall\<close>, called once; \<open>apiFn\<close>
  is the API function already applied to the arguments of that call. The result is the
  outcome, the world, and the handler that ran.
\<close>

definition mainFn ::
  "('w, 'a) operation \<Rightarrow> ('w, 'a, 'x) resilientOptions \<Rightarrow> (nat \<Rightarrow> real) \<Rightarrow> ('w, 'a) operation"
  where
  "mainFn apiFn opts rnd w =
     (if useRetry opts
        then (case retryWithBackoff apiFn (retryOptions opts) rnd w of
                (res, w', delays) \<Rightarrow> (res, w'))
      else apiFn w)"

definition createResilientApiCall ::
  "('w \<Rightarrow> bool) \<Rightarrow> ('w, 'a) operation \<Rightarrow> ('w, 'a, 'x) resilientOptions \<Rightarrow> (nat \<Rightarrow> real)
     \<Rightarrow> 'w \<Rightarrow> (thrown + 'a) \<times> 'w \<times> ErrorTypes option" where
  "createResilientApiCall onLine apiFn opts rnd w =
     (let attempt =
            (if length (fallbacks opts) > 0
               then (case fallbackChain (mainFn apiFn opts rnd # fallbacks opts) w of
                       (res, w', warned) \<Rightarrow> (res, w'))
             else mainFn apiFn opts rnd w)
      in case attempt of
           (Inr v, w') \<Rightarrow> (Inr v, w', None)
         | (Inl error, w') \<Rightarrow>
             (Inl error, w', handleApiError (onLine w') error (errorHandlers opts)))"

section \<open>The timer facility\<close>

text \<open>
  \<^verbatim>\<open>setTimeout\<close> and \<^verbatim>\<open>clearTimeout\<close>: the timers armed and neither fired nor
  cleared, each with its handle and its delay in milliseconds, and the next handle. Handles
  are positive, hence truthy; a variable holding a handle or \<^verbatim>\<open>null\<close> is a
  \<open>nat option\<close>.
\<close>

record timers =
  pending :: "(nat \<times> real) list"
  nextHandle :: nat

definition noTimers :: timers where
  "noTimers = \<lparr>pending = [], nextHandle = 1\<rparr>"

definition setTimeout :: "real \<Rightarrow> timers \<Rightarrow> nat \<times> timers" where
  "setTimeout delay t =
     (nextHandle t, t\<lparr>pending := pending t @ [(nextHandle t, delay)],
                        nextHandle := Suc (nextHandle t)\<rparr>)"

definition clearTimeout :: "nat \<Rightarrow> timers \<Rightarrow> timers" where
  "clearTimeout h t = t\<lparr>pending := filter (\<lambda>(i, d). i \<noteq> h) (pending t)\<rparr>"

definition isPending :: "nat \<Rightarrow> timers \<Rightarrow> bool" where
  "isPending h t = (h \<in> set (map fst (pending t)))"

section \<open>Circuit breaker\<close>

datatype states = CLOSED | OPEN | HALF_OPEN

text \<open>The calls made to the callbacks \<^verbatim>\<open>onOpen\<close>, \<^verbatim>\<open>onClose\<close>, \<^verbatim>\<open>onHalfOpen\<close>.\<close>

datatype breakerEvent = OnOpen thrown | OnClose | OnHalfOpen

record breakerOptions =
  failureThreshold :: int
  resetTimeout :: real

definition defaultBreakerOptions :: breakerOptions where
  "defaultBreakerOptions = \<lparr>failureThreshold = 5, resetTimeout = 30000\<rparr>"

text \<open>
  The variables closed over by \<^verbatim>\<open>createCircuitBreaker\<close>, with the timers it has armed
  and the callbacks it has called so far.
\<close>

record breaker =
  state :: states
  failures :: int
  resetTimer :: "nat option"
  lastError :: "thrown option"
  breakerTimers :: timers
  breakerEvents :: "breakerEvent list"

definition createCircuitBreaker :: breaker where
  "createCircuitBreaker =
     \<lparr>state = CLOSED, failures = 0, resetTimer = None, lastError = None,
      breakerTimers = noTimers, breakerEvents = []\<rparr>"

definition scheduleReset :: "breakerOptions \<Rightarrow> breaker \<Rightarrow> breaker" where
  "scheduleReset opts b =
     (let t = (case resetTimer b of
                 Some h \<Rightarrow> clearTimeout h (breakerTimers b)
               | None \<Rightarrow> breakerTimers b);
          (h', t') = setTimeout (resetTimeout opts) t
      in b\<lparr>resetTimer := Some h', breakerTimers := t'\<rparr>)"

text \<open>The callback armed by \<^verbatim>\<open>scheduleReset\<close>, when timer \<open>h\<close> fires.\<close>

definition resetTimerFires :: "nat \<Rightarrow> breaker \<Rightarrow> breaker" where
  "resetTimerFires h b =
     (if isPending h (breakerTimers b)
        then (let b' = b\<lparr>breakerTimers := clearTimeout h (breakerTimers b)\<rparr>
              in if state b' = OPEN
                   then b'\<lparr>state := HALF_OPEN, breakerEvents := breakerEvents b' @ [OnHalfOpen]\<rparr>
                 else b')
      else b)"

text \<open>What \<^verbatim>\<open>execute\<close> does after \<^verbatim>\<open>fn\<close> has resolved.\<close>

definition onSuccess :: "breaker \<Rightarrow> breaker" where
  "onSuccess b =
     (if state b = HALF_OPEN
        then b\<lparr>state := CLOSED, failures := 0, breakerEvents := breakerEvents b @ [OnClose]\<rparr>
      else b)"

text \<open>What the \<^verbatim>\<open>catch\<close> block of \<^verbatim>\<open>execute\<close> does with the error thrown.\<close>

definition onFailure :: "breakerOptions \<Rightarrow> thrown \<Rightarrow> breaker \<Rightarrow> breaker" where
  "onFailure opts error b0 =
     (let b = b0\<lparr>lastError := Some error\<rparr> in
      if state b = HALF_OPEN
        then (let b1 = scheduleReset opts (b\<lparr>state := OPEN\<rparr>)
              in b1\<lparr>breakerEvents := breakerEvents b1 @ [OnOpen error]\<rparr>)
      else if state b = CLOSED
        then (let b1 = b\<lparr>failures := failures b + 1\<rparr> in
              if failures b1 \<ge> failureThreshold opts
                then (let b2 = scheduleReset opts (b1\<lparr>state := OPEN\<rparr>)
                      in b2\<lparr>breakerEvents := breakerEvents b2 @ [OnOpen error]\<rparr>)
              else b1)
      else b)"

text \<open>
  \<^verbatim>\<open>execute\<close>, one call run from start to end on the breaker and the world: no other
  call and no timer runs while \<^verbatim>\<open>fn\<close> is awaited.
\<close>

definition execute ::
  "breakerOptions \<Rightarrow> ('w, 'a) operation \<Rightarrow> breaker \<times> 'w \<Rightarrow> (thrown + 'a) \<times> breaker \<times> 'w"
  where
  "execute opts fn bw =
     (case bw of (b, w) \<Rightarrow>
        if state b = OPEN then (Inl (newError ''Circuit breaker is open''), b, w)
        else (case fn w of
                (Inr result, w') \<Rightarrow> (Inr result, onSuccess b, w')
              | (Inl error, w') \<Rightarrow> (Inl error, onFailure opts error b, w')))"

definition reset :: "breaker \<Rightarrow> breaker" where
  "reset b =
     (let b1 = b\<lparr>state := CLOSED, failures := 0\<rparr>;
          b2 = (case resetTimer b1 of
                  Some h \<Rightarrow> b1\<lparr>breakerTimers := clearTimeout h (breakerTimers b1),
                                 resetTimer := None\<rparr>
                | None \<Rightarrow> b1)
      in b2\<lparr>breakerEvents := breakerEvents b2 @ [OnClose]\<rparr>)"

definition getState :: "breaker \<Rightarrow> states" where
  "getState b = state b"

definition getFailureCount :: "breaker \<Rightarrow> int" where
  "getFailureCount b = failures b"

section \<open>The WebSocket session hook (usePlayAiWebSocket)\<close>

datatype ConnectionStatus = Disconnected | Connecting | Connected | Error

text \<open>\<^verbatim>\<open>WebSocket.readyState\<close>.\<close>

datatype ReadyState = WS_CONNECTING | WS_OPEN | WS_CLOSING | WS_CLOSED

text \<open>The calls made to \<^verbatim>\<open>onStatusChange\<close>, \<^verbatim>\<open>onError\<close> and \<^verbatim>\<open>onMessage\<close>, in order.\<close>

datatype callback = OnStatusChange ConnectionStatus | OnError thrown | OnMessage string

text \<open>
  The state of one hook instance: the React state (\<open>wsStatus\<close> and \<open>wsError\<close> are the
  source's \<^verbatim>\<open>status\<close> and \<^verbatim>\<open>error\<close>), the three refs, and the part of the browser the
  hook acts on: the sockets it has created (numbered in order of creation, each with its
  \<^verbatim>\<open>readyState\<close>), the timers, the frames sent, the callbacks called. A ref to a socket
  is the socket's number. \<open>closeCalls\<close> lists the calls of \<^verbatim>\<open>close\<close> the hook has made:
  the socket, the code and the reason.
\<close>

record hook =
  wsStatus :: ConnectionStatus
  wsError :: "thrown option"
  socketRef :: "nat option"
  reconnectTimeoutRef :: "nat option"
  reconnectAttemptsRef :: nat
  sockets :: "nat \<Rightarrow> ReadyState"
  nextSocket :: nat
  hookTimers :: timers
  sent :: "(nat \<times> string) list"
  closeCalls :: "(nat \<times> nat \<times> string) list"
  callbacks :: "callback list"

definition MAX_RECONNECT_ATTEMPTS :: nat where
  "MAX_RECONNECT_ATTEMPTS = 5"

definition RECONNECT_DELAY :: real where
  "RECONNECT_DELAY = 2000"

definition usePlayAiWebSocket :: hook where
  "usePlayAiWebSocket =
     \<lparr>wsStatus = Disconnected, wsError = None, socketRef = None,
      reconnectTimeoutRef = None, reconnectAttemptsRef = 0,
      sockets = (\<lambda>k. WS_CLOSED), nextSocket = 0, hookTimers = noTimers,
      sent = [], closeCalls = [], callbacks = []\<rparr>"

definition updateStatus :: "ConnectionStatus \<Rightarrow> hook \<Rightarrow> hook" where
  "updateStatus newStatus s =
     s\<lparr>wsStatus := newStatus, callbacks := callbacks s @ [OnStatusChange newStatus]\<rparr>"

definition handleError :: "thrown \<Rightarrow> hook \<Rightarrow> hook" where
  "handleError err s =
     (let s1 = updateStatus Error (s\<lparr>wsError := Some err\<rparr>)
      in s1\<lparr>callbacks := callbacks s1 @ [OnError err]\<rparr>)"

text \<open>
  \<^verbatim>\<open>connect\<close>. \<open>ctor\<close> is what \<^verbatim>\<open>new WebSocket(wsUrl)\<close> does in this call: \<open>None\<close>
  when it returns a socket (in state CONNECTING), \<open>Some e\<close> when it throws \<open>e\<close>.
\<close>

definition connect :: "thrown option \<Rightarrow> hook \<Rightarrow> hook" where
  "connect ctor s =
     (if (case socketRef s of
            None \<Rightarrow> False
          | Some k \<Rightarrow> sockets s k = WS_OPEN \<or> sockets s k = WS_CONNECTING)
        then s
      else
        (let s1 = updateStatus Connecting s in
         case ctor of
           Some err \<Rightarrow> handleError err s1
         | None \<Rightarrow>
             s1\<lparr>socketRef := Some (nextSocket s1),
                sockets := (sockets s1)(nextSocket s1 := WS_CONNECTING),
                nextSocket := Suc (nextSocket s1)\<rparr>))"

text \<open>The four handlers that \<^verbatim>\<open>connect\<close> sets on every socket it creates.\<close>

definition onopen :: "hook \<Rightarrow> hook" where
  "onopen s = (updateStatus Connected s)\<lparr>reconnectAttemptsRef := 0\<rparr>"

text \<open>\<open>parsed\<close> is the outcome of \<^verbatim>\<open>JSON.parse(event.data)\<close>; \<open>None\<close> when it throws.\<close>

definition onmessage :: "string option \<Rightarrow> hook \<Rightarrow> hook" where
  "onmessage parsed s =
     (case parsed of
        Some data \<Rightarrow> s\<lparr>callbacks := callbacks s @ [OnMessage data]\<rparr>
      | None \<Rightarrow> handleError (newError ''Failed to parse message from server'') s)"

definition onerror :: "hook \<Rightarrow> hook" where
  "onerror s = handleError (newError ''WebSocket connection error'') s"

text \<open>\<open>wasClean\<close> is \<^verbatim>\<open>event.wasClean\<close>.\<close>

definition onclose :: "bool \<Rightarrow> hook \<Rightarrow> hook" where
  "onclose wasClean s0 =
     (let s = updateStatus Disconnected s0 in
      if \<not> wasClean \<and> reconnectAttemptsRef s < MAX_RECONNECT_ATTEMPTS
        then (let s1 = s\<lparr>reconnectAttemptsRef := reconnectAttemptsRef s + 1\<rparr>;
                  (h, t) = setTimeout RECONNECT_DELAY (hookTimers s1)
              in s1\<lparr>reconnectTimeoutRef := Some h, hookTimers := t\<rparr>)
      else if reconnectAttemptsRef s \<ge> MAX_RECONNECT_ATTEMPTS
        then handleError (newError ''Maximum reconnection attempts reached'') s
      else s)"

text \<open>
  The browser's side of the events: socket \<open>k\<close> changes its \<^verbatim>\<open>readyState\<close>, then its
  handler runs. A socket that the hook no longer refers to still has its handlers.
\<close>

definition openEvent :: "nat \<Rightarrow> hook \<Rightarrow> hook" where
  "openEvent k s = onopen (s\<lparr>sockets := (sockets s)(k := WS_OPEN)\<rparr>)"

definition closeEvent :: "nat \<Rightarrow> bool \<Rightarrow> hook \<Rightarrow> hook" where
  "closeEvent k wasClean s = onclose wasClean (s\<lparr>sockets := (sockets s)(k := WS_CLOSED)\<rparr>)"




text \<open>
  A message given to \<^verbatim>\<open>sendMessage\<close>: a string, sent as it is, or another value, with
  the outcome of \<^verbatim>\<open>JSON.stringify\<close> on it (the text, or the error thrown).
\<close>

datatype wsMessage = Str string | Json "thrown + string"

definition sendMessage :: "wsMessage \<Rightarrow> hook \<Rightarrow> bool \<times> hook" where
  "sendMessage msg s =
     (let notConnected = (False, handleError (newError ''WebSocket is not connected'') s) in
      case socketRef s of
        None \<Rightarrow> notConnected
      | Some k \<Rightarrow>
          if sockets s k \<noteq> WS_OPEN then notConnected
          else (case (case msg of Str m \<Rightarrow> Inr m | Json j \<Rightarrow> j) of
                  Inr messageString \<Rightarrow> (True, s\<lparr>sent := sent s @ [(k, messageString)]\<rparr>)
                | Inl err \<Rightarrow> (False, handleError err s)))"

section \<open>The conversation controller (createConversation)\<close>

text \<open>
  The variables closed over by \<^verbatim>\<open>createConversation\<close> that \<^verbatim>\<open>sendTextMessage\<close>
  touches, with the sockets, the frames sent (socket, text, conversation id) and the
  callbacks called.
\<close>

record conversation =
  socket :: "nat option"
  convStatus :: ConnectionStatus
  conversationId :: "string option"
  convSockets :: "nat \<Rightarrow> ReadyState"
  convSent :: "(nat \<times> string \<times> string option) list"
  convCallbacks :: "callback list"

text \<open>
  \<^verbatim>\<open>sendTextMessage\<close>. \<open>fails\<close> is what building and sending the frame does inside the
  \<^verbatim>\<open>try\<close> block: \<open>None\<close> when it goes through, \<open>Some e\<close> when it throws \<open>e\<close>.
\<close>

definition sendTextMessage :: "thrown option \<Rightarrow> string \<Rightarrow> conversation \<Rightarrow> bool \<times> conversation"
  where
  "sendTextMessage fails txt c =
     (let notConnected =
            (False, c\<lparr>convCallbacks := convCallbacks c
                                         @ [OnError (newError ''WebSocket is not connected'')]\<rparr>)
      in case socket c of
           None \<Rightarrow> notConnected
         | Some k \<Rightarrow>
             if convSockets c k \<noteq> WS_OPEN then notConnected
             else (case fails of
                     None \<Rightarrow> (True, c\<lparr>convSent := convSent c @ [(k, txt, conversationId c)]\<rparr>)
                   | Some err \<Rightarrow>
                       (False, c\<lparr>convCallbacks := convCallbacks c @ [OnError err]\<rparr>)))"

section \<open>The WebSocket reconnection monitor (monitorWebSocketConnection)\<close>

record monitorOptions =
  maxReconnects :: int
  reconnectDelay :: real

definition defaultMonitorOptions :: monitorOptions where
  "defaultMonitorOptions = \<lparr>maxReconnects = 5, reconnectDelay = 1000\<rparr>"

text \<open>The calls made to \<^verbatim>\<open>onReconnect\<close> and \<^verbatim>\<open>onMaxReconnects\<close>.\<close>

datatype monitorEvent = OnReconnect nat real | OnMaxReconnects

text \<open>
  The variables closed over by \<^verbatim>\<open>monitorWebSocketConnection\<close>, with its timers and the
  callbacks called. Sockets are numbered; \<^verbatim>\<open>createSocket\<close> returns the next number.
\<close>

record monitor =
  currentSocket :: nat
  reconnectAttempts :: nat
  reconnectTimeout :: "nat option"
  isMonitoring :: bool
  monitorTimers :: timers
  monitorEvents :: "monitorEvent list"

definition monitorWebSocketConnection :: "nat \<Rightarrow> monitor" where
  "monitorWebSocketConnection sock =
     \<lparr>currentSocket = sock, reconnectAttempts = 0, reconnectTimeout = None,
      isMonitoring = False, monitorTimers = noTimers, monitorEvents = []\<rparr>"

text \<open>
  \<^verbatim>\<open>handleClose\<close>, the listener for the close event of the monitored socket. Adding
  and removing the listener is not modelled: the flag \<open>isMonitoring\<close> decides whether
  the listener acts.
\<close>

definition handleClose :: "monitorOptions \<Rightarrow> bool \<Rightarrow> monitor \<Rightarrow> monitor" where
  "handleClose opts wasClean m =
     (if \<not> isMonitoring m then m
      else if \<not> wasClean \<and> int (reconnectAttempts m) < maxReconnects opts
        then (let m1 = m\<lparr>reconnectAttempts := reconnectAttempts m + 1\<rparr>;
                  delay = reconnectDelay opts * (15 / 10) ^ (reconnectAttempts m1 - 1);
                  m2 = m1\<lparr>monitorEvents := monitorEvents m1
                                      @ [OnReconnect (reconnectAttempts m1) delay]\<rparr>;
                  (h, t) = setTimeout delay (monitorTimers m2)
              in m2\<lparr>reconnectTimeout := Some h, monitorTimers := t\<rparr>)
      else if int (reconnectAttempts m) \<ge> maxReconnects opts
        then m\<lparr>monitorEvents := monitorEvents m @ [OnMaxReconnects]\<rparr>
      else m)"

text \<open>
  The callback armed by \<^verbatim>\<open>handleClose\<close>, when timer \<open>h\<close> fires. \<open>created\<close> is what
  \<^verbatim>\<open>createSocket()\<close> does: \<open>Some k\<close> when it returns socket \<open>k\<close>, \<open>None\<close> when it
  throws (the error is logged and dropped).
\<close>

definition monitorTimerFires :: "nat option \<Rightarrow> nat \<Rightarrow> monitor \<Rightarrow> monitor" where
  "monitorTimerFires created h m =
     (if isPending h (monitorTimers m)
        then (let m1 = m\<lparr>monitorTimers := clearTimeout h (monitorTimers m)\<rparr>
              in case created of
                   Some k \<Rightarrow> m1\<lparr>currentSocket := k\<rparr>
                 | None \<Rightarrow> m1)
      else m)"

definition start :: "monitor \<Rightarrow> monitor" where
  "start m = (if isMonitoring m then m else m\<lparr>isMonitoring := True, reconnectAttempts := 0\<rparr>)"

definition stop :: "monitor \<Rightarrow> monitor" where
  "stop m =
     (if \<not> isMonitoring m then m
      else (let m1 = m\<lparr>isMonitoring := False\<rparr>
            in case reconnectTimeout m1 of
                 Some h \<Rightarrow> m1\<lparr>monitorTimers := clearTimeout h (monitorTimers m1),
                                reconnectTimeout := None\<rparr>
               | None \<Rightarrow> m1))"

section \<open>Notions used to state the properties\<close>

text \<open>The world after \<open>n\<close> invocations of an operation in a row.\<close>

primrec worldAfter :: "nat \<Rightarrow> ('w, 'a) operation \<Rightarrow> 'w \<Rightarrow> 'w" where
  "worldAfter 0 fn w = w"
| "worldAfter (Suc n) fn w = worldAfter n fn (snd (fn w))"

text \<open>
  Running the operations of a list in order, each on the world the one before left: if every
  one of them throws, the world at the end and the errors thrown, in order; \<open>None\<close> as soon
  as one resolves.
\<close>

fun allFail :: "('w, 'a) operation list \<Rightarrow> 'w \<Rightarrow> ('w \<times> thrown list) option" where
  "allFail [] w = Some (w, [])"
| "allFail (fn # fns) w =
     (case fn w of
        (Inr v, w') \<Rightarrow> None
      | (Inl e, w') \<Rightarrow>
          (case allFail fns w' of
             None \<Rightarrow> None
           | Some (w'', es) \<Rightarrow> Some (w'', e # es)))"

text \<open>The hook, or the conversation controller, holds a socket that is open.\<close>

definition channelOpen :: "hook \<Rightarrow> bool" where
  "channelOpen s = (case socketRef s of None \<Rightarrow> False | Some k \<Rightarrow> sockets s k = WS_OPEN)"

definition convChannelOpen :: "conversation \<Rightarrow> bool" where
  "convChannelOpen c =
     (case socket c of None \<Rightarrow> False | Some k \<Rightarrow> convSockets c k = WS_OPEN)"

section \<open>Concrete operations and states used in the examples\<close>

text \<open>
  Operations on a world that is a counter of invocations: each call adds one, so the
  counter after a run is the number of times the operation was invoked.
\<close>

definition alwaysFails :: "thrown \<Rightarrow> (nat, unit) operation" where
  "alwaysFails e n = (Inl e, Suc n)"

definition alwaysSucceeds :: "(nat, unit) operation" where
  "alwaysSucceeds n = (Inr (), Suc n)"

definition calls :: "nat \<Rightarrow> nat" where
  "calls n = n"

definition alwaysOnLine :: "nat \<Rightarrow> bool" where
  "alwaysOnLine n = True"

text \<open>Every random draw is \<open>1/2\<close>, which makes the jitter factor 1.\<close>

definition midJitter :: "nat \<Rightarrow> real" where
  "midJitter k = 1 / 2"

definition timeoutError :: thrown where
  "timeoutError = newError ''request timed out''"

definition validationError :: thrown where
  "validationError =
     Obj \<lparr>message = Some ''email is malformed'', status = Some 400, statusCode = None\<rparr>"

definition notFoundError :: thrown where
  "notFoundError =
     Obj \<lparr>message = Some ''agent not found'', status = Some 404, statusCode = None\<rparr>"

text \<open>Two error objects with the same message and the same effective status 404.\<close>

definition viaStatus :: jserror where
  "viaStatus = \<lparr>message = Some ''gone'', status = Some 404, statusCode = None\<rparr>"

definition viaStatusCode :: jserror where
  "viaStatusCode = \<lparr>message = Some ''gone'', status = Some 0, statusCode = Some 404\<rparr>"

text \<open>A breaker with the default options after one failed call: closed, one failure.\<close>

definition breakerAfterOneFailure :: breaker where
  "breakerAfterOneFailure =
     fst (snd (execute defaultBreakerOptions (alwaysFails (newError ''boom''))
                 (createCircuitBreaker, 0)))"

text \<open>A breaker with threshold 1 after one failed call: open.\<close>

definition thresholdOne :: breakerOptions where
  "thresholdOne = \<lparr>failureThreshold = 1, resetTimeout = 30000\<rparr>"

definition openBreaker :: breaker where
  "openBreaker =
     fst (snd (execute thresholdOne (alwaysFails (newError ''boom'')) (createCircuitBreaker, 0)))"

text \<open>The same breaker once its reset timer (handle 1) has fired: half-open.\<close>

definition halfOpenBreaker :: breaker where
  "halfOpenBreaker = resetTimerFires 1 openBreaker"

text \<open>
  An options bag for the resilient call wrapper in which the caller has also put a circuit
  breaker, and that breaker is open.
\<close>

definition withOpenBreaker :: "(nat, unit, breaker option) resilientOptions" where
  "withOpenBreaker =
     \<lparr>useRetry = True, retryOptions = defaultRetryOptions alwaysOnLine,
      fallbacks = [alwaysSucceeds], errorHandlers = noHandlers,
      extra = Some openBreaker\<rparr>"

text \<open>
  A hook that has connected (socket 0 is open); the same after socket 0 has closed
  uncleanly; and a fresh hook after a send that found no socket.
\<close>

definition connectedHook :: hook where
  "connectedHook = openEvent 0 (connect None usePlayAiWebSocket)"

definition afterUncleanClose :: hook where
  "afterUncleanClose = closeEvent 0 False connectedHook"




text \<open>A conversation controller that has not connected.\<close>

definition freshConversation :: conversation where
  "freshConversation =
     \<lparr>socket = None, convStatus = Disconnected, conversationId = None,
      convSockets = (\<lambda>k. WS_CLOSED), convSent = [], convCallbacks = []\<rparr>"

text \<open>A monitor of socket 0 that has been started.\<close>

definition monitoring :: monitor where
  "monitoring = start (monitorWebSocketConnection 0)"

section \<open>Classification: properties\<close>

lemma classify_timeoutError: "classifyError True timeoutError = TIMEOUT"
  by (simp add: classifyError_def timeoutError_def newError_def messageOf_def statusOf_def
      orNum_def)

lemma classify_validationError: "classifyError True validationError = VALIDATION"
  by (simp add: classifyError_def validationError_def messageOf_def statusOf_def orNum_def)

text \<open>
  Claim C7, as the code has it. The kind of an error object is a function of its message,
  its effective status and the value of \<^verbatim>\<open>navigator.onLine\<close>: two error objects with the
  same message and status get the same kind under the same connectivity. While the browser
  is offline every error object is classified as a network error, whatever its status and
  message; a falsy error is always unknown.
\<close>

theorem classifyError_inputs:
  "(messageOf e1 = messageOf e2 \<and> statusOf e1 = statusOf e2 \<longrightarrow>
      classifyError onLine (Obj e1) = classifyError onLine (Obj e2))
   \<and> classifyError False (Obj e1) = NETWORK
   \<and> classifyError onLine Falsy = UNKNOWN"
  by (simp add: classifyError_def)

theorem classifyError_inputs_witness:
  "messageOf viaStatus = messageOf viaStatusCode
   \<and> statusOf viaStatus = statusOf viaStatusCode
   \<and> classifyError True (Obj viaStatus) = classifyError True (Obj viaStatusCode)
   \<and> classifyError True (Obj viaStatus) = RESOURCE_NOT_FOUND
   \<and> classifyError False (Obj viaStatus) = NETWORK"
proof -
  have m: "messageOf viaStatus = messageOf viaStatusCode"
    by (simp add: messageOf_def viaStatus_def viaStatusCode_def)
  have st: "statusOf viaStatus = statusOf viaStatusCode"
    by (simp add: statusOf_def orNum_def viaStatus_def viaStatusCode_def)
  have k: "classifyError True (Obj viaStatus) = RESOURCE_NOT_FOUND"
    by (simp add: classifyError_def messageOf_def statusOf_def orNum_def viaStatus_def)
  from classifyError_inputs [of viaStatus viaStatusCode True] m st k
  show ?thesis by simp
qed

text \<open>
  Claim C7 as stated fails: the same status and message (404, "agent not found") are
  classified as not found while the browser is online and as a network error while it is
  offline.
\<close>

theorem classifyError_offline_counterexample:
  "classifyError True notFoundError = RESOURCE_NOT_FOUND
   \<and> classifyError False notFoundError = NETWORK"
  by (simp add: classifyError_def notFoundError_def messageOf_def statusOf_def orNum_def)

section \<open>Retry: properties\<close>

lemma retryLoop_succeeds:
  assumes "fn w = (Inr v, w')"
  shows "retryLoop fn opts rnd k w = (Inr v, w', [])"
  using assms by (subst retryLoop.simps) simp

lemma retryLoop_gives_up:
  assumes "fn w = (Inl e, w')" and "maxRetries opts \<le> int k \<or> \<not> shouldRetry opts w' e"
  shows "retryLoop fn opts rnd k w = (Inl e, w', [])"
  using assms by (subst retryLoop.simps) auto

lemma retryLoop_retries:
  assumes "fn w = (Inl e, w')" and "int k < maxRetries opts" and "shouldRetry opts w' e"
  shows "retryLoop fn opts rnd k w =
           (case retryLoop fn opts rnd (Suc k) w' of
              (res, w'', delays) \<Rightarrow>
                (res, w'', backoffDelay (maxDelay opts) (baseDelay opts) k (rnd k) # delays))"
  using assms by (subst retryLoop.simps) (simp add: Let_def)

text \<open>
  An operation that throws a retryable error on every call, under \<open>maxRetries = m\<close>: from
  retry count \<open>k\<close> the loop makes \<open>m - k + 1\<close> calls and ends with the outcome of the last.
\<close>

lemma retryLoop_always_failing:
  assumes fails: "\<forall>w. \<exists>e. fst (fn w) = Inl e \<and> shouldRetry opts (snd (fn w)) e"
    and m: "maxRetries opts = int m"
  shows "k \<le> m \<Longrightarrow>
         retryLoop fn opts rnd k w =
           (fst (fn (worldAfter (m - k) fn w)), worldAfter (Suc (m - k)) fn w,
            map (\<lambda>i. backoffDelay (maxDelay opts) (baseDelay opts) i (rnd i)) [k..<m])"
proof (induction "m - k" arbitrary: k w)
  case 0
  then have km: "k = m" by simp
  from fails obtain e where e1: "fst (fn w) = Inl e" by blast
  then have e: "fn w = (Inl e, snd (fn w))" by (simp add: prod_eq_iff)
  have "retryLoop fn opts rnd k w = (Inl e, snd (fn w), [])"
    by (rule retryLoop_gives_up [where fn = fn and w = w, OF e]) (simp add: m km)
  then show ?case using e1 km by simp
next
  case (Suc d)
  then have lt: "int k < maxRetries opts" and d: "d = m - Suc k" and le: "Suc k \<le> m"
    using m by auto
  from fails obtain e where e1: "fst (fn w) = Inl e"
    and r: "shouldRetry opts (snd (fn w)) e" by blast
  from e1 have e: "fn w = (Inl e, snd (fn w))" by (simp add: prod_eq_iff)
  have mk: "m - k = Suc (m - Suc k)" using le by simp
  have up: "[k..<m] = k # [Suc k..<m]" using le by (simp add: upt_conv_Cons)
  have step: "retryLoop fn opts rnd k w =
           (case retryLoop fn opts rnd (Suc k) (snd (fn w)) of
              (res, w'', delays) \<Rightarrow>
                (res, w'', backoffDelay (maxDelay opts) (baseDelay opts) k (rnd k) # delays))"
    by (rule retryLoop_retries [where fn = fn and w = w, OF e lt r])
  show ?case
    by (simp add: step Suc.hyps(1) [OF d le] mk up)
qed

text \<open>
  Claim C5. With \<open>maxRetries = 3\<close>, an operation that throws on every call an error the
  retry predicate accepts is invoked exactly four times: the world at the end is the world
  after four invocations, three delays were slept, and the outcome is the outcome of the
  fourth invocation itself, the error it threw, as thrown.
\<close>

theorem retryWithBackoff_bound:
  assumes "maxRetries opts = 3"
    and "\<forall>w. \<exists>e. fst (fn w) = Inl e \<and> shouldRetry opts (snd (fn w)) e"
  shows "retryWithBackoff fn opts rnd w =
           (fst (fn (worldAfter 3 fn w)), worldAfter 4 fn w,
            [backoffDelay (maxDelay opts) (baseDelay opts) 0 (rnd 0),
             backoffDelay (maxDelay opts) (baseDelay opts) 1 (rnd 1),
             backoffDelay (maxDelay opts) (baseDelay opts) 2 (rnd 2)])
         \<and> (\<exists>e. fn (worldAfter 3 fn w) = (Inl e, worldAfter 4 fn w))"
proof -
  have m: "maxRetries opts = int 3" using assms(1) by simp
  have up: "[0..<3] = [0, 1, 2]" by (simp add: upt_rec)
  have four: "worldAfter 4 fn w = snd (fn (worldAfter 3 fn w))"
    by (simp add: eval_nat_numeral)
  from assms(2) obtain e where e: "fst (fn (worldAfter 3 fn w)) = Inl e" by blast
  have last: "fn (worldAfter 3 fn w) = (Inl e, worldAfter 4 fn w)"
    using e four by (simp add: prod_eq_iff)
  have "retryLoop fn opts rnd 0 w =
          (fst (fn (worldAfter (3 - 0) fn w)), worldAfter (Suc (3 - 0)) fn w,
           map (\<lambda>i. backoffDelay (maxDelay opts) (baseDelay opts) i (rnd i)) [0..<3])"
    by (rule retryLoop_always_failing [OF assms(2) m]) simp
  then have "retryWithBackoff fn opts rnd w =
           (fst (fn (worldAfter 3 fn w)), worldAfter 4 fn w,
            [backoffDelay (maxDelay opts) (baseDelay opts) 0 (rnd 0),
             backoffDelay (maxDelay opts) (baseDelay opts) 1 (rnd 1),
             backoffDelay (maxDelay opts) (baseDelay opts) 2 (rnd 2)])"
    by (simp add: retryWithBackoff_def up eval_nat_numeral)
  with last show ?thesis by blast
qed

theorem retryWithBackoff_bound_witness:
  "maxRetries (defaultRetryOptions alwaysOnLine) = 3
   \<and> (\<forall>w. \<exists>e. fst (alwaysFails timeoutError w) = Inl e
              \<and> shouldRetry (defaultRetryOptions alwaysOnLine)
                    (snd (alwaysFails timeoutError w)) e)
   \<and> retryWithBackoff (alwaysFails timeoutError) (defaultRetryOptions alwaysOnLine)
         midJitter 0
       = (Inl timeoutError, 4, [1000, 2000, 4000])"
proof -
  have h1: "maxRetries (defaultRetryOptions alwaysOnLine) = 3"
    by (simp add: defaultRetryOptions_def)
  have h2: "\<forall>w. \<exists>e. fst (alwaysFails timeoutError w) = Inl e
              \<and> shouldRetry (defaultRetryOptions alwaysOnLine)
                    (snd (alwaysFails timeoutError w)) e"
    by (simp add: alwaysFails_def defaultRetryOptions_def defaultShouldRetry_def
        alwaysOnLine_def classify_timeoutError)
  have w3: "worldAfter 3 (alwaysFails timeoutError) 0 = 3"
    by (simp add: eval_nat_numeral alwaysFails_def)
  have w4: "worldAfter 4 (alwaysFails timeoutError) 0 = 4"
    by (simp add: eval_nat_numeral alwaysFails_def)
  have d: "backoffDelay 10000 1000 0 (1 / 2) = 1000"
    "backoffDelay 10000 1000 (Suc 0) (1 / 2) = 2000"
    "backoffDelay 10000 1000 2 (1 / 2) = 4000"
    by (simp_all add: backoffDelay_def)
  from retryWithBackoff_bound [OF h1 h2, of midJitter 0]
  have "retryWithBackoff (alwaysFails timeoutError) (defaultRetryOptions alwaysOnLine)
          midJitter 0 = (Inl timeoutError, 4, [1000, 2000, 4000])"
    by (simp add: w3 w4) (simp add: alwaysFails_def defaultRetryOptions_def midJitter_def d)
  with h1 h2 show ?thesis by blast
qed

text \<open>
  Claim C9. Under the default retry predicate, an operation whose call throws an error
  classified as a validation error is invoked exactly once, whatever \<open>maxRetries\<close> is:
  the outcome is that error, the world is the one that single call left, and no delay is
  slept.
\<close>

theorem retryWithBackoff_validation_once:
  assumes "fn w = (Inl e, w')"
    and "classifyError (onLine w') e = VALIDATION"
    and "shouldRetry opts = defaultShouldRetry onLine"
  shows "retryWithBackoff fn opts rnd w = (Inl e, w', [])"
  unfolding retryWithBackoff_def
  by (rule retryLoop_gives_up [where fn = fn and w = w, OF assms(1)])
     (simp add: assms(2,3) defaultShouldRetry_def)

theorem retryWithBackoff_validation_once_witness:
  "alwaysFails validationError 0 = (Inl validationError, 1)
   \<and> classifyError (alwaysOnLine 1) validationError = VALIDATION
   \<and> shouldRetry (defaultRetryOptions alwaysOnLine) = defaultShouldRetry alwaysOnLine
   \<and> retryWithBackoff (alwaysFails validationError) (defaultRetryOptions alwaysOnLine)
         midJitter 0
       = (Inl validationError, 1, [])"
proof -
  have h1: "alwaysFails validationError 0 = (Inl validationError, 1)"
    by (simp add: alwaysFails_def)
  have h2: "classifyError (alwaysOnLine 1) validationError = VALIDATION"
    by (simp add: alwaysOnLine_def classify_validationError)
  have h3: "shouldRetry (defaultRetryOptions alwaysOnLine) = defaultShouldRetry alwaysOnLine"
    by (simp add: defaultRetryOptions_def)
  from retryWithBackoff_validation_once
         [where fn = "alwaysFails validationError" and w = 0 and onLine = alwaysOnLine
            and opts = "defaultRetryOptions alwaysOnLine" and rnd = midJitter, OF h1 h2 h3]
       h1 h2 h3
  show ?thesis by blast
qed

section \<open>Circuit breaker: properties\<close>

lemma breakerAfterOneFailure_eq:
  "breakerAfterOneFailure =
     \<lparr>state = CLOSED, failures = 1, resetTimer = None, lastError = Some (newError ''boom''),
      breakerTimers = noTimers, breakerEvents = []\<rparr>"
  by (simp add: breakerAfterOneFailure_def execute_def createCircuitBreaker_def
      onFailure_def defaultBreakerOptions_def alwaysFails_def Let_def)

lemma openBreaker_eq:
  "openBreaker =
     \<lparr>state = OPEN, failures = 1, resetTimer = Some 1, lastError = Some (newError ''boom''),
      breakerTimers = \<lparr>pending = [(1, 30000)], nextHandle = 2\<rparr>,
      breakerEvents = [OnOpen (newError ''boom'')]\<rparr>"
  by (simp add: openBreaker_def execute_def createCircuitBreaker_def onFailure_def
      scheduleReset_def setTimeout_def noTimers_def thresholdOne_def alwaysFails_def Let_def)

lemma halfOpenBreaker_eq:
  "halfOpenBreaker =
     \<lparr>state = HALF_OPEN, failures = 1, resetTimer = Some 1,
      lastError = Some (newError ''boom''),
      breakerTimers = \<lparr>pending = [], nextHandle = 2\<rparr>,
      breakerEvents = [OnOpen (newError ''boom''), OnHalfOpen]\<rparr>"
  by (simp add: halfOpenBreaker_def openBreaker_eq resetTimerFires_def isPending_def
      clearTimeout_def Let_def)

text \<open>
  Claim C4. If the breaker is open when \<^verbatim>\<open>execute\<close> is called, the call fails at once
  with the error "Circuit breaker is open"; the operation is not invoked (the world it
  acts on is the one before the call) and the breaker is left as it was, state and
  failure count included.
\<close>

theorem execute_open_rejects:
  "state b = OPEN \<Longrightarrow>
     execute opts fn (b, w) = (Inl (newError ''Circuit breaker is open''), b, w)
     \<and> getState (fst (snd (execute opts fn (b, w)))) = OPEN
     \<and> getFailureCount (fst (snd (execute opts fn (b, w)))) = getFailureCount b"
  by (simp add: execute_def getState_def getFailureCount_def)

theorem execute_open_rejects_witness:
  "state openBreaker = OPEN
   \<and> execute thresholdOne alwaysSucceeds (openBreaker, 1)
       = (Inl (newError ''Circuit breaker is open''), openBreaker, 1)"
  using execute_open_rejects [of openBreaker thresholdOne alwaysSucceeds 1]
  by (simp add: openBreaker_eq)

text \<open>
  Claim C1, as the code has it. A call that succeeds while the breaker is closed leaves
  the breaker exactly as it was: the failure count keeps its value and is not reset. A
  call that succeeds while the breaker is half-open closes it and sets the failure count
  to 0.
\<close>

theorem execute_success_failures:
  "fn w = (Inr v, w') \<Longrightarrow>
     (state b = CLOSED \<longrightarrow> execute opts fn (b, w) = (Inr v, b, w'))
     \<and> (state b = HALF_OPEN \<longrightarrow>
            fst (execute opts fn (b, w)) = Inr v
            \<and> getState (fst (snd (execute opts fn (b, w)))) = CLOSED
            \<and> getFailureCount (fst (snd (execute opts fn (b, w)))) = 0)"
  by (simp add: execute_def onSuccess_def getState_def getFailureCount_def)

theorem execute_success_failures_witness:
  "alwaysSucceeds 1 = (Inr (), 2)
   \<and> state breakerAfterOneFailure = CLOSED
   \<and> execute defaultBreakerOptions alwaysSucceeds (breakerAfterOneFailure, 1)
       = (Inr (), breakerAfterOneFailure, 2)
   \<and> state halfOpenBreaker = HALF_OPEN
   \<and> getState (fst (snd (execute thresholdOne alwaysSucceeds (halfOpenBreaker, 1)))) = CLOSED
   \<and> getFailureCount (fst (snd (execute thresholdOne alwaysSucceeds (halfOpenBreaker, 1)))) = 0"
proof -
  have ok: "alwaysSucceeds 1 = (Inr (), 2)"
    by (simp add: alwaysSucceeds_def)
  have c: "state breakerAfterOneFailure = CLOSED"
    by (simp add: breakerAfterOneFailure_eq)
  have h: "state halfOpenBreaker = HALF_OPEN"
    by (simp add: halfOpenBreaker_eq)
  from execute_success_failures
         [where fn = alwaysSucceeds and w = 1 and b = breakerAfterOneFailure
            and opts = defaultBreakerOptions, OF ok]
       execute_success_failures
         [where fn = alwaysSucceeds and w = 1 and b = halfOpenBreaker
            and opts = thresholdOne, OF ok]
       ok c h
  show ?thesis by simp
qed

text \<open>
  Claim C1 as stated fails: after one failed call the breaker is closed with one failure
  counted; a call that then succeeds in the closed state leaves the count at 1, not 0.
\<close>

theorem execute_closed_success_counterexample:
  "getState breakerAfterOneFailure = CLOSED
   \<and> fst (execute defaultBreakerOptions alwaysSucceeds (breakerAfterOneFailure, 1)) = Inr ()
   \<and> getFailureCount
         (fst (snd (execute defaultBreakerOptions alwaysSucceeds (breakerAfterOneFailure, 1))))
       = 1"
  by (simp add: breakerAfterOneFailure_eq execute_def onSuccess_def alwaysSucceeds_def
      getState_def getFailureCount_def)

section \<open>Fallback chain: properties\<close>

lemma fallbackLoop_first_success:
  "allFail pre w = Some (w1, errs) \<Longrightarrow> fn w1 = (Inr v, w2) \<Longrightarrow>
     fallbackLoop le (pre @ fn # rest) w = (Inr v, w2, errs)"
proof (induction pre arbitrary: le w errs)
  case Nil
  then show ?case by simp
next
  case (Cons g pre)
  then show ?case
    by (auto split: prod.splits sum.splits option.splits)
qed

lemma fallbackLoop_all_fail:
  "allFail fns w = Some (w1, errs) \<Longrightarrow>
     fallbackLoop le fns w =
       (Inl (orError (last (le # errs)) (newError ''All fallback options failed'')), w1, errs)"
proof (induction fns arbitrary: le w errs)
  case Nil
  then show ?case by simp
next
  case (Cons g fns)
  then show ?case
    by (auto split: prod.splits sum.splits option.splits)
qed

text \<open>
  Claim C6, as the code has it. On an empty list the chain fails with the error "No
  fallback functions provided" and leaves the world untouched. The operations run in the
  order given: if those before \<open>fn\<close> all throw and \<open>fn\<close> resolves, the chain resolves with
  the value of \<open>fn\<close> in the world \<open>fn\<close> left, whatever comes after \<open>fn\<close> in the list (none
  of it runs). If every operation of a non-empty list throws, the chain throws what the
  last one threw when that is an object, and a new error "All fallback options failed"
  when the last one threw a falsy value; the earlier errors are only logged.
\<close>

theorem fallbackChain_order:
  "fallbackChain [] w = (Inl (newError ''No fallback functions provided''), w, [])
   \<and> (allFail pre w = Some (w1, errs) \<and> fn w1 = (Inr v, w2) \<longrightarrow>
        fallbackChain (pre @ fn # rest) w = (Inr v, w2, errs))
   \<and> (fns \<noteq> [] \<and> allFail fns w = Some (w1, errs) \<longrightarrow>
        fallbackChain fns w =
          (case last errs of
             Obj x \<Rightarrow> Inl (Obj x)
           | Falsy \<Rightarrow> Inl (newError ''All fallback options failed''), w1, errs))"
proof (intro conjI impI)
  show "fallbackChain [] w = (Inl (newError ''No fallback functions provided''), w, [])"
    by (simp add: fallbackChain_def)
next
  assume "allFail pre w = Some (w1, errs) \<and> fn w1 = (Inr v, w2)"
  then show "fallbackChain (pre @ fn # rest) w = (Inr v, w2, errs)"
    by (simp add: fallbackChain_def fallbackLoop_first_success)
next
  assume a: "fns \<noteq> [] \<and> allFail fns w = Some (w1, errs)"
  then have "errs \<noteq> []"
    by (cases fns) (auto split: prod.splits sum.splits option.splits)
  with a show "fallbackChain fns w =
          (case last errs of
             Obj x \<Rightarrow> Inl (Obj x)
           | Falsy \<Rightarrow> Inl (newError ''All fallback options failed''), w1, errs)"
    by (simp add: fallbackChain_def fallbackLoop_all_fail orError_def split: thrown.splits)
qed

theorem fallbackChain_order_witness:
  "allFail [alwaysFails timeoutError] 0 = Some (1, [timeoutError])
   \<and> alwaysSucceeds 1 = (Inr (), 2)
   \<and> fallbackChain [alwaysFails timeoutError, alwaysSucceeds, alwaysFails notFoundError] 0
       = (Inr (), 2, [timeoutError])
   \<and> allFail [alwaysFails timeoutError, alwaysFails notFoundError] 0
       = Some (2, [timeoutError, notFoundError])
   \<and> fallbackChain [alwaysFails timeoutError, alwaysFails notFoundError] 0
       = (Inl notFoundError, 2, [timeoutError, notFoundError])"
proof -
  have a1: "allFail [alwaysFails timeoutError] 0 = Some (1, [timeoutError])"
    by (simp add: alwaysFails_def)
  have s1: "alwaysSucceeds 1 = (Inr (), 2)"
    by (simp add: alwaysSucceeds_def)
  have a2: "allFail [alwaysFails timeoutError, alwaysFails notFoundError] 0
              = Some (2, [timeoutError, notFoundError])"
    by (simp add: alwaysFails_def)
  note t1 = fallbackChain_order
         [where pre = "[alwaysFails timeoutError]" and w = 0 and fn = alwaysSucceeds
            and rest = "[alwaysFails notFoundError]" and ?w1.0 = 1 and errs = "[timeoutError]"
            and v = "()" and ?w2.0 = 2, THEN conjunct2, THEN conjunct1, rule_format,
          OF conjI [OF a1 s1]]
  then have first: "fallbackChain
                 [alwaysFails timeoutError, alwaysSucceeds, alwaysFails notFoundError] 0
               = (Inr (), 2, [timeoutError])"
    by simp
  have ne: "[alwaysFails timeoutError, alwaysFails notFoundError] \<noteq> []"
    by simp
  note t2 = fallbackChain_order
         [where fns = "[alwaysFails timeoutError, alwaysFails notFoundError]" and w = 0
            and ?w1.0 = 2 and errs = "[timeoutError, notFoundError]",
          THEN conjunct2, THEN conjunct2, rule_format, OF conjI [OF ne a2]]
  then have "fallbackChain [alwaysFails timeoutError, alwaysFails notFoundError] 0
          = (Inl notFoundError, 2, [timeoutError, notFoundError])"
    by (simp add: notFoundError_def)
  with a1 s1 a2 first show ?thesis by (intro conjI)
qed

text \<open>
  Claim C6 as stated fails: an operation that rejects with a falsy value (a bare
  \<^verbatim>\<open>Promise.reject()\<close>) is the last and only one of the chain, and the chain throws not
  that value but a new error "All fallback options failed".
\<close>

theorem fallbackChain_falsy_counterexample:
  "alwaysFails Falsy 0 = (Inl Falsy, 1)
   \<and> fallbackChain [alwaysFails Falsy] 0
       = (Inl (newError ''All fallback options failed''), 1, [Falsy])
   \<and> newError ''All fallback options failed'' \<noteq> Falsy"
  by (simp add: fallbackChain_def alwaysFails_def orError_def newError_def)

section \<open>Resilient call wrapper: properties\<close>

text \<open>
  A counter \<open>cnt\<close> read off the world that every call of the operation raises is raised by
  the retry loop, and one that no fallback lowers is not lowered by the fallback loop.
\<close>

lemma retryLoop_counts:
  "(\<forall>w. cnt w < cnt (snd (fn w))) \<Longrightarrow>
     (cnt w :: nat) < cnt (fst (snd (retryLoop fn opts rnd k w)))"
proof (induction fn opts rnd k w rule: retryLoop.induct)
  case (1 fn opts rnd retries w)
  obtain r w' where fw: "fn w = (r, w')" by (cases "fn w")
  from "1.prems" have lt: "cnt w < cnt w'"
    using fw by (metis snd_conv)
  show ?case
  proof (cases r)
    case (Inr v)
    with fw lt show ?thesis by (subst retryLoop.simps) simp
  next
    case (Inl error)
    show ?thesis
    proof (cases "maxRetries opts \<le> int retries \<or> \<not> shouldRetry opts w' error")
      case True
      with fw Inl lt show ?thesis by (subst retryLoop.simps) auto
    next
      case False
      from "1.IH" [OF fw [symmetric] Inl False refl "1.prems"]
      have "cnt w' < cnt (fst (snd (retryLoop fn opts rnd (Suc retries) w')))" .
      with lt have "cnt w < cnt (fst (snd (retryLoop fn opts rnd (Suc retries) w')))"
        by simp
      with fw Inl False show ?thesis
        by (subst retryLoop.simps) (auto simp add: Let_def split: prod.splits)
    qed
  qed
qed

lemma fallbackLoop_counts:
  "(\<forall>f \<in> set fns. \<forall>w. cnt w \<le> cnt (snd (f w))) \<Longrightarrow>
     (cnt w :: nat) \<le> cnt (fst (snd (fallbackLoop le fns w)))"
proof (induction fns arbitrary: le w)
  case Nil
  then show ?case by simp
next
  case (Cons g fns)
  obtain r w' where gw: "g w = (r, w')" by (cases "g w")
  from Cons.prems have le1: "cnt w \<le> cnt w'"
    using gw by (metis list.set_intros(1) snd_conv)
  show ?case
  proof (cases r)
    case (Inr v)
    with gw le1 show ?thesis by simp
  next
    case (Inl e)
    from Cons.IH [of w' e] Cons.prems
    have "cnt w' \<le> cnt (fst (snd (fallbackLoop e fns w')))" by simp
    with le1 gw Inl show ?thesis by (auto split: prod.splits)
  qed
qed

lemma mainFn_counts:
  assumes "\<forall>w. cnt w < cnt (snd (apiFn w))"
  shows "(cnt w :: nat) < cnt (snd (mainFn apiFn opts rnd w))"
proof (cases "useRetry opts")
  case True
  obtain r w' ds where rl: "retryLoop apiFn (retryOptions opts) rnd 0 w = (r, w', ds)"
    by (cases "retryLoop apiFn (retryOptions opts) rnd 0 w")
  from retryLoop_counts [of cnt apiFn w "retryOptions opts" rnd 0] assms rl
  have "cnt w < cnt w'" by simp
  with True rl show ?thesis
    by (simp add: mainFn_def retryWithBackoff_def)
next
  case False
  with assms show ?thesis by (simp add: mainFn_def)
qed

lemma mainFn_extra: "mainFn apiFn (opts\<lparr>extra := x\<rparr>) = mainFn apiFn opts"
  by (simp add: mainFn_def fun_eq_iff)

text \<open>
  Claim C3, as the code has it. The wrapper reads \<open>useRetry\<close>, \<open>retryOptions\<close>,
  \<open>fallbacks\<close> and \<open>errorHandlers\<close> from its options and nothing else: a circuit breaker
  put in the options is ignored, so a call gives the same outcome, world and handler
  whatever breaker is passed or none. No breaker gates the operation: if every call of
  the operation raises a counter and no fallback lowers it, every call of the wrapper
  leaves the counter raised: the operation is invoked at least once.
\<close>

theorem createResilientApiCall_ignores_breaker:
  "createResilientApiCall onLine apiFn (opts\<lparr>extra := x\<rparr>) rnd w
     = createResilientApiCall onLine apiFn (opts\<lparr>extra := y\<rparr>) rnd w
   \<and> ((\<forall>w. cnt w < cnt (snd (apiFn w)))
        \<and> (\<forall>f \<in> set (fallbacks opts). \<forall>w. cnt w \<le> cnt (snd (f w)))
      \<longrightarrow> (cnt w :: nat) < cnt (fst (snd (createResilientApiCall onLine apiFn opts rnd w))))"
proof (intro conjI impI)
  show "createResilientApiCall onLine apiFn (opts\<lparr>extra := x\<rparr>) rnd w
     = createResilientApiCall onLine apiFn (opts\<lparr>extra := y\<rparr>) rnd w"
    by (simp add: createResilientApiCall_def mainFn_extra split: prod.splits sum.splits)
next
  assume a: "(\<forall>w. cnt w < cnt (snd (apiFn w)))
        \<and> (\<forall>f \<in> set (fallbacks opts). \<forall>w. cnt w \<le> cnt (snd (f w)))"
  then have m: "cnt w < cnt (snd (mainFn apiFn opts rnd w))"
    by (simp add: mainFn_counts)
  obtain r w' where mw: "mainFn apiFn opts rnd w = (r, w')"
    by (cases "mainFn apiFn opts rnd w")
  show "cnt w < cnt (fst (snd (createResilientApiCall onLine apiFn opts rnd w)))"
  proof (cases "fallbacks opts = []")
    case True
    with m mw show ?thesis
      by (simp add: createResilientApiCall_def split: sum.splits)
  next
    case False
    have rest: "cnt w' \<le> cnt (fst (snd (fallbackLoop le (fallbacks opts) w')))" for le
      using a by (simp add: fallbackLoop_counts)
    show ?thesis
    proof (cases r)
      case (Inr v)
      with False m mw show ?thesis
        by (simp add: createResilientApiCall_def fallbackChain_def)
    next
      case (Inl e)
      obtain r2 w2 ws where fl: "fallbackLoop e (fallbacks opts) w' = (r2, w2, ws)"
        by (cases "fallbackLoop e (fallbacks opts) w'")
      from rest [of e] fl have "cnt w' \<le> cnt w2" by simp
      with m mw have "cnt w < cnt w2" by simp
      with False mw Inl fl show ?thesis
        by (simp add: createResilientApiCall_def fallbackChain_def split: sum.splits)
    qed
  qed
qed

lemma call_withOpenBreaker:
  "createResilientApiCall alwaysOnLine alwaysSucceeds withOpenBreaker midJitter 0
     = (Inr (), 1, None)"
proof -
  have ok: "alwaysSucceeds 0 = (Inr (), 1)"
    by (simp add: alwaysSucceeds_def)
  have "mainFn alwaysSucceeds withOpenBreaker midJitter 0 = (Inr (), 1)"
    by (simp add: mainFn_def withOpenBreaker_def retryWithBackoff_def
        retryLoop_succeeds [where fn = alwaysSucceeds and w = 0, OF ok])
  then show ?thesis
    by (simp add: createResilientApiCall_def fallbackChain_def withOpenBreaker_def)
qed

theorem createResilientApiCall_ignores_breaker_witness:
  "(\<forall>w. calls w < calls (snd (alwaysSucceeds w)))
   \<and> fallbacks withOpenBreaker = [alwaysSucceeds]
   \<and> calls 0
       < calls (fst (snd (createResilientApiCall alwaysOnLine alwaysSucceeds withOpenBreaker
                            midJitter 0)))
   \<and> createResilientApiCall alwaysOnLine alwaysSucceeds
         (withOpenBreaker\<lparr>extra := Some openBreaker\<rparr>) midJitter 0
       = createResilientApiCall alwaysOnLine alwaysSucceeds
           (withOpenBreaker\<lparr>extra := None\<rparr>) midJitter 0"
proof -
  have h1: "\<forall>w. calls w < calls (snd (alwaysSucceeds w))"
    by (simp add: calls_def alwaysSucceeds_def)
  have h2: "\<forall>f \<in> set (fallbacks withOpenBreaker). \<forall>w. calls w \<le> calls (snd (f w))"
    by (simp add: withOpenBreaker_def calls_def alwaysSucceeds_def)
  from createResilientApiCall_ignores_breaker
         [where onLine = alwaysOnLine and apiFn = alwaysSucceeds and opts = withOpenBreaker
            and x = "Some openBreaker" and y = None and rnd = midJitter and w = 0
            and cnt = calls]
       h1 h2
  have "calls 0
          < calls (fst (snd (createResilientApiCall alwaysOnLine alwaysSucceeds
                               withOpenBreaker midJitter 0)))
        \<and> createResilientApiCall alwaysOnLine alwaysSucceeds
              (withOpenBreaker\<lparr>extra := Some openBreaker\<rparr>) midJitter 0
            = createResilientApiCall alwaysOnLine alwaysSucceeds
                (withOpenBreaker\<lparr>extra := None\<rparr>) midJitter 0"
    by blast
  moreover have "fallbacks withOpenBreaker = [alwaysSucceeds]"
    by (simp add: withOpenBreaker_def)
  ultimately show ?thesis using h1 by (intro conjI) (elim conjE, assumption)+
qed

text \<open>
  Claim C3 as stated fails: the options hold a circuit breaker that is open, and the call
  still invokes the operation (once: the counter goes from 0 to 1) and resolves.
\<close>

theorem createResilientApiCall_open_breaker_counterexample:
  "extra withOpenBreaker = Some openBreaker
   \<and> getState openBreaker = OPEN
   \<and> createResilientApiCall alwaysOnLine alwaysSucceeds withOpenBreaker midJitter 0
       = (Inr (), 1, None)"
proof -
  have e: "extra withOpenBreaker = Some openBreaker"
    by (simp add: withOpenBreaker_def)
  have o: "getState openBreaker = OPEN"
    by (simp add: openBreaker_eq getState_def)
  from e o call_withOpenBreaker show ?thesis by (intro conjI)
qed

section \<open>The session hook: properties\<close>

lemma connectedHook_eq:
  "connectedHook =
     \<lparr>wsStatus = Connected, wsError = None, socketRef = Some 0,
      reconnectTimeoutRef = None, reconnectAttemptsRef = 0,
      sockets = (\<lambda>k. WS_CLOSED)(0 := WS_OPEN), nextSocket = 1, hookTimers = noTimers,
      sent = [], closeCalls = [],
      callbacks = [OnStatusChange Connecting, OnStatusChange Connected]\<rparr>"
  by (simp add: connectedHook_def openEvent_def onopen_def connect_def usePlayAiWebSocket_def
      updateStatus_def Let_def)

lemma afterUncleanClose_eq:
  "afterUncleanClose =
     \<lparr>wsStatus = Disconnected, wsError = None, socketRef = Some 0,
      reconnectTimeoutRef = Some 1, reconnectAttemptsRef = 1,
      sockets = (\<lambda>k. WS_CLOSED), nextSocket = 1,
      hookTimers = \<lparr>pending = [(1, 2000)], nextHandle = 2\<rparr>,
      sent = [], closeCalls = [],
      callbacks = [OnStatusChange Connecting, OnStatusChange Connected,
                   OnStatusChange Disconnected]\<rparr>"
  by (simp add: afterUncleanClose_def connectedHook_eq closeEvent_def onclose_def
      updateStatus_def setTimeout_def noTimers_def MAX_RECONNECT_ATTEMPTS_def
      RECONNECT_DELAY_def Let_def fun_eq_iff)


text \<open>
  Claim C2, as the code has it. When a socket of the hook closes uncleanly and the attempts
  counter is below the maximum, the counter goes up by one, the status becomes
  disconnected, and exactly one timer is armed, with the fixed delay
  \<^verbatim>\<open>RECONNECT_DELAY\<close>, whatever the counter is; its handle is stored in the ref. The
  stand-alone monitor does the same while it is monitoring, with the delay
  \<open>reconnectDelay * 1.5 ^ n\<close>, \<open>n\<close> the counter before the increment. Neither delay has
  jitter or a cap.
\<close>

theorem unclean_close_schedules_reconnect:
  "(reconnectAttemptsRef s < MAX_RECONNECT_ATTEMPTS \<longrightarrow>
      reconnectAttemptsRef (closeEvent k False s) = reconnectAttemptsRef s + 1
      \<and> pending (hookTimers (closeEvent k False s))
          = pending (hookTimers s) @ [(nextHandle (hookTimers s), RECONNECT_DELAY)]
      \<and> reconnectTimeoutRef (closeEvent k False s) = Some (nextHandle (hookTimers s))
      \<and> wsStatus (closeEvent k False s) = Disconnected)
   \<and> (isMonitoring m \<and> int (reconnectAttempts m) < maxReconnects opts \<longrightarrow>
        reconnectAttempts (handleClose opts False m) = reconnectAttempts m + 1
        \<and> pending (monitorTimers (handleClose opts False m))
            = pending (monitorTimers m)
              @ [(nextHandle (monitorTimers m),
                  reconnectDelay opts * (15 / 10) ^ reconnectAttempts m)]
        \<and> reconnectTimeout (handleClose opts False m) = Some (nextHandle (monitorTimers m)))"
  by (simp add: closeEvent_def onclose_def updateStatus_def setTimeout_def handleClose_def
      Let_def)

theorem unclean_close_schedules_reconnect_witness:
  "reconnectAttemptsRef afterUncleanClose < MAX_RECONNECT_ATTEMPTS
   \<and> reconnectAttemptsRef (closeEvent 0 False afterUncleanClose) = 2
   \<and> pending (hookTimers (closeEvent 0 False afterUncleanClose)) = [(1, 2000), (2, 2000)]
   \<and> isMonitoring monitoring
   \<and> int (reconnectAttempts monitoring) < maxReconnects defaultMonitorOptions
   \<and> reconnectAttempts (handleClose defaultMonitorOptions False monitoring) = 1
   \<and> pending (monitorTimers (handleClose defaultMonitorOptions False monitoring))
       = [(1, 1000)]"
  using unclean_close_schedules_reconnect
          [of afterUncleanClose 0 monitoring defaultMonitorOptions]
  by (simp add: afterUncleanClose_eq MAX_RECONNECT_ATTEMPTS_def RECONNECT_DELAY_def
      monitoring_def start_def monitorWebSocketConnection_def defaultMonitorOptions_def
      noTimers_def)

text \<open>
  Claim C2 as stated fails: a connected hook with no attempt made so far arms, on an
  unclean close, a timer of 2000 ms, and no backoff policy with \<open>baseDelay \<le> maxDelay\<close>
  gives 2000 ms for attempt index 0 under every jitter: the delay is not drawn from the
  backoff formula.
\<close>

theorem reconnect_delay_counterexample:
  "reconnectAttemptsRef connectedHook = 0
   \<and> pending (hookTimers (closeEvent 0 False connectedHook)) = [(1, 2000)]
   \<and> \<not> (\<exists>baseD maxD. baseD \<le> maxD
          \<and> (\<forall>r. 0 \<le> r \<and> r < 1 \<longrightarrow>
                 backoffDelay maxD baseD (reconnectAttemptsRef connectedHook) r = 2000))"
proof -
  have a: "reconnectAttemptsRef connectedHook = 0"
    by (simp add: connectedHook_eq)
  have p: "pending (hookTimers (closeEvent 0 False connectedHook)) = [(1, 2000)]"
    using afterUncleanClose_eq by (simp add: afterUncleanClose_def)
  have "False" if le: "baseD \<le> maxD"
    and all: "\<forall>r. 0 \<le> r \<and> r < 1 \<longrightarrow> backoffDelay maxD baseD 0 r = 2000"
    for baseD maxD :: real
  proof -
    from all have "backoffDelay maxD baseD 0 (1 / 2) = 2000" by simp
    with le have b: "baseD = 2000" by (simp add: backoffDelay_def)
    from all have "backoffDelay maxD baseD 0 0 = 2000" by simp
    with b show False by (simp add: backoffDelay_def min_def split: if_splits)
  qed
  with a p show ?thesis by auto
qed






text \<open>
  Claim C10, as the code has it. When the hook holds no open socket, \<^verbatim>\<open>sendMessage\<close>
  returns false without throwing, after going through the hook's error path: the error is
  recorded, the status becomes error, and the status and error callbacks are called; the
  socket ref, the sockets and the frames sent are unchanged. When the conversation
  controller holds no open socket, \<^verbatim>\<open>sendTextMessage\<close> returns false after calling the
  error callback, and nothing else changes, the status included.
\<close>

theorem send_not_open:
  "(\<not> channelOpen s \<longrightarrow>
      sendMessage msg s = (False, handleError (newError ''WebSocket is not connected'') s)
      \<and> wsStatus (snd (sendMessage msg s)) = Error
      \<and> socketRef (snd (sendMessage msg s)) = socketRef s
      \<and> sockets (snd (sendMessage msg s)) = sockets s
      \<and> sent (snd (sendMessage msg s)) = sent s
      \<and> callbacks (snd (sendMessage msg s))
          = callbacks s @ [OnStatusChange Error,
                           OnError (newError ''WebSocket is not connected'')])
   \<and> (\<not> convChannelOpen c \<longrightarrow>
        sendTextMessage fails body c
          = (False, c\<lparr>convCallbacks := convCallbacks c
                          @ [OnError (newError ''WebSocket is not connected'')]\<rparr>)
        \<and> convStatus (snd (sendTextMessage fails body c)) = convStatus c
        \<and> socket (snd (sendTextMessage fails body c)) = socket c
        \<and> convSockets (snd (sendTextMessage fails body c)) = convSockets c)"
proof (intro conjI impI)
  assume n: "\<not> channelOpen s"
  then show eq: "sendMessage msg s
      = (False, handleError (newError ''WebSocket is not connected'') s)"
    by (simp add: sendMessage_def channelOpen_def Let_def split: option.splits)
  show "wsStatus (snd (sendMessage msg s)) = Error"
    by (simp add: eq handleError_def updateStatus_def Let_def)
  show "socketRef (snd (sendMessage msg s)) = socketRef s"
    by (simp add: eq handleError_def updateStatus_def Let_def)
  show "sockets (snd (sendMessage msg s)) = sockets s"
    by (simp add: eq handleError_def updateStatus_def Let_def)
  show "sent (snd (sendMessage msg s)) = sent s"
    by (simp add: eq handleError_def updateStatus_def Let_def)
  show "callbacks (snd (sendMessage msg s))
          = callbacks s @ [OnStatusChange Error,
                           OnError (newError ''WebSocket is not connected'')]"
    by (simp add: eq handleError_def updateStatus_def Let_def)
next
  assume n: "\<not> convChannelOpen c"
  then show eq: "sendTextMessage fails body c
          = (False, c\<lparr>convCallbacks := convCallbacks c
                          @ [OnError (newError ''WebSocket is not connected'')]\<rparr>)"
    by (auto simp add: sendTextMessage_def convChannelOpen_def Let_def split: option.splits)
  show "convStatus (snd (sendTextMessage fails body c)) = convStatus c"
    by (simp add: eq)
  show "socket (snd (sendTextMessage fails body c)) = socket c"
    by (simp add: eq)
  show "convSockets (snd (sendTextMessage fails body c)) = convSockets c"
    by (simp add: eq)
qed

theorem send_not_open_witness:
  "\<not> channelOpen afterUncleanClose
   \<and> wsStatus afterUncleanClose = Disconnected
   \<and> fst (sendMessage (Str ''hello'') afterUncleanClose) = False
   \<and> wsStatus (snd (sendMessage (Str ''hello'') afterUncleanClose)) = Error
   \<and> socketRef (snd (sendMessage (Str ''hello'') afterUncleanClose)) = Some 0
   \<and> \<not> convChannelOpen freshConversation
   \<and> fst (sendTextMessage None ''hello'' freshConversation) = False
   \<and> convStatus (snd (sendTextMessage None ''hello'' freshConversation)) = Disconnected"
proof -
  have h1: "\<not> channelOpen afterUncleanClose"
    by (simp add: channelOpen_def afterUncleanClose_eq)
  have h2: "\<not> convChannelOpen freshConversation"
    by (simp add: convChannelOpen_def freshConversation_def)
  have s: "wsStatus afterUncleanClose = Disconnected"
    "socketRef afterUncleanClose = Some 0"
    by (simp_all add: afterUncleanClose_eq)
  have c: "convStatus freshConversation = Disconnected"
    by (simp add: freshConversation_def)
  note sn = send_not_open
         [where s = afterUncleanClose and msg = "Str ''hello''" and c = freshConversation
            and fails = None and body = "''hello''"]
  note hk = sn [THEN conjunct1, rule_format, OF h1]
  note cv = sn [THEN conjunct2, rule_format, OF h2]
  have r1: "fst (sendMessage (Str ''hello'') afterUncleanClose) = False"
    by (simp add: hk [THEN conjunct1])
  have r2: "wsStatus (snd (sendMessage (Str ''hello'') afterUncleanClose)) = Error"
    by (rule hk [THEN conjunct2, THEN conjunct1])
  have r3: "socketRef (snd (sendMessage (Str ''hello'') afterUncleanClose)) = Some 0"
    using hk [THEN conjunct2, THEN conjunct2, THEN conjunct1] s(2) by (rule trans)
  have r4: "fst (sendTextMessage None ''hello'' freshConversation) = False"
    by (simp add: cv [THEN conjunct1])
  have r5: "convStatus (snd (sendTextMessage None ''hello'' freshConversation)) = Disconnected"
    using cv [THEN conjunct2, THEN conjunct1] c by (rule trans)
  from h1 s(1) r1 r2 r3 h2 r4 r5 show ?thesis by (intro conjI)
qed

text \<open>
  Claim C10 as stated fails: on a fresh hook, whose status is disconnected, a send finds
  no socket, returns false, and leaves the status at error.
\<close>

theorem sendMessage_status_counterexample:
  "wsStatus usePlayAiWebSocket = Disconnected
   \<and> fst (sendMessage (Str ''hello'') usePlayAiWebSocket) = False
   \<and> wsStatus (snd (sendMessage (Str ''hello'') usePlayAiWebSocket)) = Error"
  by (simp add: sendMessage_def usePlayAiWebSocket_def handleError_def updateStatus_def
      Let_def)

end
